theory Spec2Isabelle
  imports Complex_Main
begin

section \<open>The ProgressBlock widget of progress.js\<close>

text \<open>
  The class \<^verbatim>\<open>ProgressBlock\<close> draws a circular gauge on a canvas. Its methods
  mutate \<^verbatim>\<open>this.settings\<close>, the canvas element, the 2D context and the browser's
  animation-frame queue. The model passes all of that along as one record.

  JavaScript numbers are modelled as real numbers; \<^verbatim>\<open>NaN\<close> and the infinities
  are not values of the model. The rotation is the one number that the widget
  accumulates, and there the rounding of double arithmetic decides what happens: the
  addition \<^verbatim>\<open>rotation += 0.02\<close> is rounded to the nearest double. The geometry
  that \<^verbatim>\<open>draw\<close> computes for one render is taken without rounding. The canvas
  is an \<^verbatim>\<open>HTMLCanvasElement\<close>: its dimensions are integers, and its context
  rejects an arc of negative radius.

  A method that throws returns \<open>Some\<close> of the error together with the state as the
  statements before the throw left it; a method that returns normally returns \<open>None\<close>.
\<close>

subsection \<open>Data\<close>

text \<open>
  The errors the methods can throw: a TypeError for a property read on
  \<^verbatim>\<open>null\<close>, and the IndexSizeError of \<^verbatim>\<open>ctx.arc\<close>.
\<close>

datatype error = TypeError | IndexSizeError

text \<open>
  The 2D context is seen through the calls the widget makes on it, in order. A property
  assignment such as \<^verbatim>\<open>ctx.lineWidth = 10\<close> is recorded like a call. \<open>Arc\<close> has
  the five arguments the source passes (centre, radius, start angle, end angle); the
  sixth argument of the canvas API is left at its default, which draws clockwise.
\<close>

datatype ctx_call =
    ClearRect real real real real
  | BeginPath
  | StrokeStyle string
  | LineWidth real
  | Arc real real real real real
  | Stroke

text \<open>
  The reference \<^verbatim>\<open>this.settings.ctx\<close>: \<^verbatim>\<open>null\<close>, or the context object.
\<close>

datatype ctx_ref = Null | Context2D

text \<open>
  The canvas element: its two dimensions (\<^verbatim>\<open>unsigned long\<close> in the DOM),
  \<^verbatim>\<open>style.visibility\<close>, and whether the element has a parent node.
\<close>

record canvas =
  width :: nat
  height :: nat
  style_visibility :: string
  parentNode :: bool

text \<open>
  The fields \<open>canvas\<close> to \<open>animationFrame\<close> are \<^verbatim>\<open>this.settings\<close>; the field
  \<^verbatim>\<open>value\<close> is called \<open>value_field\<close>. \<open>ctx_calls\<close> is the context object
  itself: the calls it has received so far, which stay with the canvas when the widget
  drops its reference. \<open>this_canvas_null\<close> says that \<^verbatim>\<open>this.canvas\<close> has been
  assigned \<^verbatim>\<open>null\<close>.
  The remaining fields are the browser around the widget: whether
  \<^verbatim>\<open>this.handleResize\<close> is registered for the resize event,
  \<^verbatim>\<open>window.innerWidth\<close> (a number of pixels, never negative), the handles of the animation frames that are
  requested and neither run nor cancelled, the next handle the browser hands out, and
  the value last assigned to the element with id \<^verbatim>\<open>value\<close> (\<open>None\<close> when the
  document has no such element, \<open>Some None\<close> when nothing has been assigned).
\<close>

record progress =
  canvas :: canvas
  ctx :: ctx_ref
  value_field :: real
  animate :: bool
  hidden :: bool
  rotation :: real
  animationFrame :: "nat option"
  ctx_calls :: "ctx_call list"
  this_canvas_null :: bool
  resize_listener :: bool
  innerWidth :: nat
  raf_pending :: "nat list"
  raf_next :: nat
  doc_input :: "real option option"

text \<open>
  The \<^verbatim>\<open>options\<close> argument of the constructor: \<open>None\<close> is a key that is absent.
\<close>

record options =
  opt_canvas :: "canvas option"
  opt_ctx :: "ctx_call list option"
  opt_value :: "real option"
  opt_animate :: "bool option"
  opt_hidden :: "bool option"
  opt_rotation :: "real option"
  opt_animationFrame :: "nat option option"

text \<open>
  What the constructor finds in the browser: the element
  \<^verbatim>\<open>document.getElementById(canvasId)\<close> with the calls its 2D context has
  received (\<open>None\<close> when there is no such element), the viewport width, the next
  animation-frame handle, and the element with id \<^verbatim>\<open>value\<close>.
\<close>

record browser =
  b_element :: "(canvas \<times> ctx_call list) option"
  b_innerWidth :: nat
  b_raf_next :: nat
  b_input :: "real option option"

subsection \<open>Double arithmetic\<close>

text \<open>
  \<open>to_double x\<close> is the double nearest to \<open>x\<close>, ties going to the even
  significand: \<open>x\<close> is rounded to a multiple of its unit in the last place,
  which is \<open>2\<close> to the power \<open>ulp_exponent x\<close> (53 significant bits, and
  \<open>2 powr - 1074\<close> for the subnormal numbers). An overflow to infinity is not
  modelled; the sum of a double and 0.02 never overflows.
\<close>

definition round_half_even :: "real \<Rightarrow> int" where
  "round_half_even y =
     (let n = \<lfloor>y\<rfloor>; f = y - of_int n
      in if f < 1 / 2 then n else if 1 / 2 < f then n + 1 else if even n then n else n + 1)"

definition ulp_exponent :: "real \<Rightarrow> int" where
  "ulp_exponent x = max (\<lfloor>log 2 \<bar>x\<bar>\<rfloor> - 52) (- 1074)"

definition to_double :: "real \<Rightarrow> real" where
  "to_double x =
     (if x = 0 then 0
      else of_int (round_half_even (x / 2 powr of_int (ulp_exponent x)))
             * 2 powr of_int (ulp_exponent x))"

subsection \<open>The dimensions of the canvas element\<close>

text \<open>
  An assignment to \<^verbatim>\<open>canvas.width\<close> or \<^verbatim>\<open>canvas.height\<close> converts the
  number to an \<^verbatim>\<open>unsigned long\<close>: the fraction is dropped (towards zero) and
  the result is taken modulo \<open>2 ^ 32\<close>. A result above 2147483647 is replaced by
  the attribute's default, 300 for the width and 150 for the height.
\<close>

definition unsigned_long :: "real \<Rightarrow> nat" where
  "unsigned_long x = nat ((if x < 0 then - \<lfloor>- x\<rfloor> else \<lfloor>x\<rfloor>) mod 2 ^ 32)"

definition set_dimension :: "nat \<Rightarrow> real \<Rightarrow> nat" where
  "set_dimension dflt x =
     (let n = unsigned_long x in if n \<le> 2147483647 then n else dflt)"

subsection \<open>The browser's animation-frame queue\<close>

text \<open>
  \<^verbatim>\<open>requestAnimationFrame(callback)\<close> returns a fresh handle and queues the
  callback under it; \<^verbatim>\<open>cancelAnimationFrame(handle)\<close> removes the callback
  queued under the handle, and does nothing when there is none. Every callback the
  widget queues is an \<^verbatim>\<open>animate\<close> closure over the same \<^verbatim>\<open>this\<close>, so
  the queue is kept as the list of handles.
\<close>

definition requestAnimationFrame :: "progress \<Rightarrow> nat \<times> progress" where
  "requestAnimationFrame s =
     (raf_next s,
      s\<lparr>raf_pending := raf_pending s @ [raf_next s], raf_next := raf_next s + 1\<rparr>)"

definition cancelAnimationFrame :: "nat \<Rightarrow> progress \<Rightarrow> progress" where
  "cancelAnimationFrame h s = s\<lparr>raf_pending := removeAll h (raf_pending s)\<rparr>"

subsection \<open>The methods\<close>

text \<open>
  \<^verbatim>\<open>draw(rotation = 0)\<close>. The first use of the context is
  \<^verbatim>\<open>this.settings.ctx.clearRect\<close>, which throws a TypeError when the context is
  \<^verbatim>\<open>null\<close>; nothing has been changed before it. \<^verbatim>\<open>ctx.arc\<close> throws an
  IndexSizeError when the radius is negative; the first arc is the fifth call, so the
  four calls before it have been made.
\<close>

definition draw :: "real \<Rightarrow> progress \<Rightarrow> error option \<times> progress" where
  "draw rot s =
     (if hidden s then (None, s)
      else
        let w = real (width (canvas s));
            h = real (height (canvas s));
            centerX = w / 2;
            centerY = h / 2;
            radius = min w h / 2.5 - 10
        in (case ctx s of
             Null \<Rightarrow> (Some TypeError, s)
           | Context2D \<Rightarrow>
               if radius < 0 then
                 (Some IndexSizeError,
                  s\<lparr>ctx_calls := ctx_calls s @
                    [ClearRect 0 0 w h,
                     BeginPath, StrokeStyle ''#E5E7EB'', LineWidth 10]\<rparr>)
               else
                 let startAngle = - pi / 2 + rot;
                     endAngle = startAngle + (value_field s / 100) * (2 * pi)
                 in (None,
                     s\<lparr>ctx_calls := ctx_calls s @
                       [ClearRect 0 0 w h,
                        BeginPath, StrokeStyle ''#E5E7EB'', LineWidth 10,
                        Arc centerX centerY radius 0 (2 * pi), Stroke,
                        BeginPath, StrokeStyle ''blue'', LineWidth 10,
                        Arc centerX centerY radius startAngle endAngle, Stroke]\<rparr>)))"

definition setCanvasSize :: "progress \<Rightarrow> error option \<times> progress" where
  "setCanvasSize s =
     (let size = min (real (innerWidth s) * 0.8) 200
      in draw 0 (s\<lparr>canvas := (canvas s)\<lparr>width := set_dimension 300 size,
                                          height := set_dimension 150 size\<rparr>\<rparr>))"

definition setValue :: "real \<Rightarrow> progress \<Rightarrow> error option \<times> progress" where
  "setValue v s = draw 0 (s\<lparr>value_field := min 100 (max 0 v)\<rparr>)"

definition setHidden :: "bool \<Rightarrow> progress \<Rightarrow> progress" where
  "setHidden h s =
     s\<lparr>hidden := h,
       canvas := (canvas s)\<lparr>style_visibility := (if h then ''hidden'' else ''visible'')\<rparr>\<rparr>"

text \<open>
  The closure \<^verbatim>\<open>animate\<close> of \<^verbatim>\<open>startAnimation\<close>: one tick. The
  literal \<^verbatim>\<open>0.02\<close> is the double nearest to 0.02, and the sum is rounded to a
  double. When \<^verbatim>\<open>draw\<close> throws, the next frame is not requested.
\<close>

definition animate_tick :: "progress \<Rightarrow> error option \<times> progress" where
  "animate_tick s =
     (let s1 = s\<lparr>rotation := to_double (rotation s + to_double 0.02)\<rparr>
      in (case draw (rotation s1) s1 of
           (Some e, s2) \<Rightarrow> (Some e, s2)
         | (None, s2) \<Rightarrow>
             (case requestAnimationFrame s2 of
                (h, s3) \<Rightarrow> (None, s3\<lparr>animationFrame := Some h\<rparr>))))"

definition startAnimation :: "progress \<Rightarrow> error option \<times> progress" where
  "startAnimation s = animate_tick s"

text \<open>
  \<^verbatim>\<open>if (this.settings.animationFrame)\<close> is false for \<^verbatim>\<open>null\<close> and for 0.
\<close>

definition stopAnimation :: "progress \<Rightarrow> error option \<times> progress" where
  "stopAnimation s =
     (let s1 = (case animationFrame s of
                  None \<Rightarrow> s
                | Some h \<Rightarrow> if h \<noteq> 0 then cancelAnimationFrame h s else s)
      in draw 0 (s1\<lparr>rotation := 0\<rparr>))"

definition setAnimate :: "bool \<Rightarrow> progress \<Rightarrow> error option \<times> progress" where
  "setAnimate a s =
     (let s1 = s\<lparr>animate := a\<rparr>
      in if a then startAnimation s1 else stopAnimation s1)"

text \<open>
  \<^verbatim>\<open>this.setValue(this.settings.value = value)\<close> first assigns the raw argument
  and then calls \<^verbatim>\<open>setValue\<close> with it; when that throws, the input element is not
  updated.
\<close>

definition incrementProgress :: "real \<Rightarrow> progress \<Rightarrow> error option \<times> progress" where
  "incrementProgress v s =
     (if value_field s < 100 then
        (case setValue v (s\<lparr>value_field := v\<rparr>) of
           (Some e, s1) \<Rightarrow> (Some e, s1)
         | (None, s1) \<Rightarrow>
             (case doc_input s1 of
                None \<Rightarrow> (None, s1)
              | Some _ \<Rightarrow> (None, s1\<lparr>doc_input := Some (Some (value_field s1))\<rparr>)))
      else (None, s))"

definition destroy :: "progress \<Rightarrow> error option \<times> progress" where
  "destroy s =
     (case stopAnimation s of
        (Some e, s1) \<Rightarrow> (Some e, s1)
      | (None, s1) \<Rightarrow>
          let s2 = s1\<lparr>resize_listener := False\<rparr>
          in (case ctx s2 of
               Null \<Rightarrow> (Some TypeError, s2)
             | Context2D \<Rightarrow>
                 let s3 = s2\<lparr>ctx_calls := ctx_calls s2 @
                            [ClearRect 0 0 (real (width (canvas s2)))
                               (real (height (canvas s2)))]\<rparr>;
                     s4 = (if parentNode (canvas s3)
                           then s3\<lparr>canvas := (canvas s3)\<lparr>parentNode := False\<rparr>\<rparr>
                           else s3)
                 in (None, s4\<lparr>this_canvas_null := True, ctx := Null\<rparr>)))"

text \<open>
  The constructor. The object literal \<^verbatim>\<open>defaults\<close> is evaluated before the
  options are merged over it, so \<^verbatim>\<open>document.getElementById(canvasId).getContext\<close>
  throws a TypeError when the document has no such element, whatever the options are.
  \<open>override d x\<close> is the merge \<^verbatim>\<open>{ ...defaults, ...options }\<close> at one key.
\<close>

definition override :: "'a \<Rightarrow> 'a option \<Rightarrow> 'a" where
  "override d x = (case x of None \<Rightarrow> d | Some y \<Rightarrow> y)"

definition constructor :: "browser \<Rightarrow> options \<Rightarrow> error + progress" where
  "constructor b opts =
     (case b_element b of
        None \<Rightarrow> Inl TypeError
      | Some (el, el_ctx) \<Rightarrow>
          let s0 = \<lparr>canvas = override el (opt_canvas opts),
                    ctx = Context2D,
                    value_field = override 0 (opt_value opts),
                    animate = override False (opt_animate opts),
                    hidden = override False (opt_hidden opts),
                    rotation = override 0 (opt_rotation opts),
                    animationFrame = override None (opt_animationFrame opts),
                    ctx_calls = override el_ctx (opt_ctx opts),
                    this_canvas_null = False,
                    resize_listener = False,
                    innerWidth = b_innerWidth b,
                    raf_pending = [],
                    raf_next = b_raf_next b,
                    doc_input = b_input b\<rparr>
          in (case setCanvasSize s0 of
               (Some e, s1) \<Rightarrow> Inl e
             | (None, s1) \<Rightarrow> Inr (s1\<lparr>resize_listener := True\<rparr>)))"

subsection \<open>Calls and events\<close>

text \<open>
  What can happen to a constructed widget: a call of one of its methods, a resize of the
  viewport to a new width (which runs \<^verbatim>\<open>handleResize\<close> while it is registered), and
  the browser running the animation frame queued under a handle. An error thrown in one
  call or event does not stop the later ones.
\<close>

datatype call =
    SetValue real
  | SetAnimate bool
  | SetHidden bool
  | IncrementProgress real
  | Destroy
  | Resize nat
  | Frame nat

fun step :: "call \<Rightarrow> progress \<Rightarrow> error option \<times> progress" where
  "step (SetValue v) s = setValue v s"
| "step (SetAnimate a) s = setAnimate a s"
| "step (SetHidden h) s = (None, setHidden h s)"
| "step (IncrementProgress v) s = incrementProgress v s"
| "step Destroy s = destroy s"
| "step (Resize w) s =
     (let s1 = s\<lparr>innerWidth := w\<rparr>
      in if resize_listener s1 then setCanvasSize s1 else (None, s1))"
| "step (Frame h) s =
     (if h \<in> set (raf_pending s)
      then animate_tick (s\<lparr>raf_pending := removeAll h (raf_pending s)\<rparr>)
      else (None, s))"

fun run :: "call list \<Rightarrow> progress \<Rightarrow> progress" where
  "run [] s = s"
| "run (c # cs) s = run cs (snd (step c s))"

text \<open>
  A page for the examples: a canvas of the default size 300 by 150 inside the document,
  nothing drawn yet, a viewport 1000 wide, and an input element with id
  \<^verbatim>\<open>value\<close>.
\<close>

definition page :: browser where
  "page = \<lparr>b_element = Some (\<lparr>width = 300, height = 150, style_visibility = [],
                               parentNode = True\<rparr>, []),
           b_innerWidth = 1000, b_raf_next = 1, b_input = Some None\<rparr>"

definition no_options :: options where
  "no_options = \<lparr>opt_canvas = None, opt_ctx = None, opt_value = None, opt_animate = None,
                 opt_hidden = None, opt_rotation = None, opt_animationFrame = None\<rparr>"

text \<open>The widget \<^verbatim>\<open>new ProgressBlock('progress')\<close> on that page.\<close>

definition fresh :: progress where
  "fresh = \<lparr>canvas = \<lparr>width = 200, height = 200, style_visibility = [],
                      parentNode = True\<rparr>,
            ctx = Context2D, value_field = 0, animate = False, hidden = False,
            rotation = 0, animationFrame = None,
            ctx_calls =
              [ClearRect 0 0 200 200,
               BeginPath, StrokeStyle ''#E5E7EB'', LineWidth 10,
               Arc 100 100 70 0 (2 * pi), Stroke,
               BeginPath, StrokeStyle ''blue'', LineWidth 10,
               Arc 100 100 70 (- pi / 2) (- pi / 2), Stroke],
            this_canvas_null = False, resize_listener = True, innerWidth = 1000,
            raf_pending = [], raf_next = 1, doc_input = Some None\<rparr>"

text \<open>
  The widget after \<^verbatim>\<open>setAnimate(true)\<close> on the example page: spinning, with the
  frame of handle 1 queued.
\<close>

definition spinning :: progress where
  "spinning = snd (setAnimate True fresh)"

text \<open>The range that the documentation gives for the value.\<close>

definition value_in_range :: "progress \<Rightarrow> bool" where
  "value_in_range s \<longleftrightarrow> 0 \<le> value_field s \<and> value_field s \<le> 100"

section \<open>Rounding to a double\<close>

lemma round_half_even_close: "\<bar>of_int (round_half_even y) - y\<bar> \<le> 1 / 2"
  unfolding round_half_even_def Let_def by (auto; linarith)

lemma ulp_exponent_at:
  assumes "2 powr of_int k \<le> \<bar>x\<bar>" and "\<bar>x\<bar> < 2 powr of_int (k + 1)" and "- 1022 \<le> k"
  shows "ulp_exponent x = k - 52"
proof -
  have "0 < \<bar>x\<bar>"
    using assms(1) powr_gt_zero [of 2 "of_int k"] by linarith
  then have "\<lfloor>log 2 \<bar>x\<bar>\<rfloor> = k"
    using assms(1,2) by (subst floor_log_eq_powr_iff) simp_all
  with assms(3) show ?thesis
    by (simp add: ulp_exponent_def)
qed

text \<open>The value of \<open>to_double\<close> at a number whose binary exponent is known.\<close>

lemma to_double_at:
  assumes "2 powr of_int k \<le> \<bar>x\<bar>" and "\<bar>x\<bar> < 2 powr of_int (k + 1)" and "- 1022 \<le> k"
  shows "to_double x =
           of_int (round_half_even (x / 2 powr of_int (k - 52))) * 2 powr of_int (k - 52)"
proof -
  have "x \<noteq> 0"
    using assms(1) powr_gt_zero [of 2 "of_int k"] by auto
  then show ?thesis
    using ulp_exponent_at [OF assms] by (simp add: to_double_def)
qed

text \<open>Rounding moves a number by at most half a unit in the last place.\<close>

lemma to_double_close: "\<bar>to_double x - x\<bar> \<le> 2 powr of_int (ulp_exponent x) / 2"
proof (cases "x = 0")
  case True
  then show ?thesis by (simp add: to_double_def)
next
  case False
  let ?u = "2 powr of_int (ulp_exponent x) :: real"
  have u: "0 < ?u" by simp
  have "\<bar>of_int (round_half_even (x / ?u)) - x / ?u\<bar> \<le> 1 / 2"
    by (rule round_half_even_close)
  then have "\<bar>of_int (round_half_even (x / ?u)) - x / ?u\<bar> * ?u \<le> 1 / 2 * ?u"
    using u by (simp only: mult_le_cancel_right_pos)
  moreover have "\<bar>of_int (round_half_even (x / ?u)) - x / ?u\<bar> * ?u
      = \<bar>of_int (round_half_even (x / ?u)) * ?u - x\<bar>"
  proof -
    have "of_int (round_half_even (x / ?u)) * ?u - x
        = (of_int (round_half_even (x / ?u)) - x / ?u) * ?u"
      by (simp add: left_diff_distrib)
    then show ?thesis
      by (simp only: abs_mult) simp
  qed
  ultimately show ?thesis
    using False by (simp add: to_double_def)
qed

lemma ulp_exponent_small:
  assumes "x \<noteq> 0" and "\<bar>x\<bar> < 2 ^ 47"
  shows "ulp_exponent x \<le> - 6"
proof -
  have "log 2 \<bar>x\<bar> < log 2 (2 ^ 47)"
    using assms by (subst log_less_cancel_iff) simp_all
  moreover have "log 2 (2 ^ 47) = (47::real)"
    by (simp only: log_pow_cancel)
  ultimately have "log 2 \<bar>x\<bar> < 47" by simp
  then have "\<lfloor>log 2 \<bar>x\<bar>\<rfloor> \<le> 46" by linarith
  then show ?thesis by (simp add: ulp_exponent_def)
qed

text \<open>
  The literal \<^verbatim>\<open>0.02\<close> and the rotations of the first three ticks from 0. The
  third sum is a tie and is rounded down to the even significand.
\<close>

lemma double_0_02: "to_double 0.02 = 5764607523034235 / 2 ^ 58"
proof -
  have "to_double 0.02 =
      of_int (round_half_even (0.02 / 2 powr of_int (- 6 - 52))) * 2 powr of_int (- 6 - 52)"
    by (rule to_double_at) (simp_all add: powr_minus)
  also have "\<dots> = 5764607523034235 / 2 ^ 58"
    by (simp add: powr_minus round_half_even_def Let_def)
  finally show ?thesis .
qed

lemma double_0_02_bounds: "1 / 64 < to_double 0.02" "to_double 0.02 < 1 / 32"
  unfolding double_0_02 by simp_all

lemma tick_1: "to_double (0 + to_double 0.02) = 5764607523034235 / 2 ^ 58"
proof -
  have "to_double (5764607523034235 / 2 ^ 58) =
      of_int (round_half_even (5764607523034235 / 2 ^ 58 / 2 powr of_int (- 6 - 52)))
        * 2 powr of_int (- 6 - 52)"
    by (rule to_double_at) (simp_all add: powr_minus)
  also have "\<dots> = 5764607523034235 / 2 ^ 58"
    by (simp add: powr_minus round_half_even_def Let_def)
  finally show ?thesis unfolding double_0_02 by simp
qed

lemma tick_2:
  "to_double (5764607523034235 / 2 ^ 58 + to_double 0.02) = 5764607523034235 / 2 ^ 57"
proof -
  have "to_double (5764607523034235 / 2 ^ 57) =
      of_int (round_half_even (5764607523034235 / 2 ^ 57 / 2 powr of_int (- 5 - 52)))
        * 2 powr of_int (- 5 - 52)"
    by (rule to_double_at) (simp_all add: powr_minus)
  also have "\<dots> = 5764607523034235 / 2 ^ 57"
    by (simp add: powr_minus round_half_even_def Let_def)
  finally show ?thesis unfolding double_0_02 by simp
qed

lemma tick_3:
  "to_double (5764607523034235 / 2 ^ 57 + to_double 0.02) = 8646911284551352 / 2 ^ 57"
proof -
  have "to_double (17293822569102705 / 2 ^ 58) =
      of_int (round_half_even (17293822569102705 / 2 ^ 58 / 2 powr of_int (- 5 - 52)))
        * 2 powr of_int (- 5 - 52)"
    by (rule to_double_at) (simp_all add: powr_minus)
  also have "\<dots> = 8646911284551352 / 2 ^ 57"
    by (simp add: powr_minus round_half_even_def Let_def)
  finally show ?thesis unfolding double_0_02 by simp
qed

text \<open>At \<open>10 ^ 16\<close> the doubles are 2 apart, and the step is absorbed.\<close>

lemma tick_absorbed: "to_double (10 ^ 16 + to_double 0.02) = 10 ^ 16"
proof -
  let ?x = "10 ^ 16 + 5764607523034235 / 2 ^ 58 :: real"
  have "to_double ?x =
      of_int (round_half_even (?x / 2 powr of_int (53 - 52))) * 2 powr of_int (53 - 52)"
    by (rule to_double_at) simp_all
  also have "\<dots> = 10 ^ 16"
    by (simp add: round_half_even_def Let_def)
  finally show ?thesis unfolding double_0_02 by simp
qed

text \<open>
  Below \<open>2 ^ 47\<close> the doubles are at most \<open>1 / 64\<close> apart, less than the step, so
  adding the step gives a larger number.
\<close>

lemma to_double_step_close:
  assumes "\<bar>r + to_double 0.02\<bar> < 2 ^ 47"
  shows "\<bar>to_double (r + to_double 0.02) - (r + to_double 0.02)\<bar> \<le> 1 / 128"
proof (cases "r + to_double 0.02 = 0")
  case True
  then show ?thesis by (simp add: to_double_def)
next
  case False
  let ?x = "r + to_double 0.02"
  have "ulp_exponent ?x \<le> - 6"
    using False assms by (rule ulp_exponent_small)
  then have "2 powr of_int (ulp_exponent ?x) \<le> (2::real) powr of_int (- 6)"
    by (simp only: powr_le_cancel_iff of_int_le_iff)
  then have "2 powr of_int (ulp_exponent ?x) / 2 \<le> (1 / 128 :: real)"
    by (simp add: powr_minus)
  with to_double_close [of ?x] show ?thesis
    by linarith
qed

lemma to_double_step_increases:
  assumes "\<bar>r + to_double 0.02\<bar> < 2 ^ 47"
  shows "r < to_double (r + to_double 0.02)"
  using to_double_step_close [OF assms] double_0_02_bounds(1) by linarith

section \<open>Rendering\<close>

lemma constructor_page: "constructor page no_options = Inr fresh"
  by (simp add: constructor_def page_def no_options_def fresh_def setCanvasSize_def draw_def
      set_dimension_def unsigned_long_def override_def Let_def)

text \<open>A render changes nothing but the calls the context has received.\<close>

lemma draw_frame:
  "canvas (snd (draw r s)) = canvas s"
  "ctx (snd (draw r s)) = ctx s"
  "value_field (snd (draw r s)) = value_field s"
  "animate (snd (draw r s)) = animate s"
  "hidden (snd (draw r s)) = hidden s"
  "rotation (snd (draw r s)) = rotation s"
  "animationFrame (snd (draw r s)) = animationFrame s"
  "this_canvas_null (snd (draw r s)) = this_canvas_null s"
  "resize_listener (snd (draw r s)) = resize_listener s"
  "innerWidth (snd (draw r s)) = innerWidth s"
  "raf_pending (snd (draw r s)) = raf_pending s"
  "raf_next (snd (draw r s)) = raf_next s"
  "doc_input (snd (draw r s)) = doc_input s"
  by (simp_all add: draw_def Let_def split: ctx_ref.split)

text \<open>A canvas of at least 25 by 25 pixels gives a radius that is not negative.\<close>

lemma radius_ok:
  assumes "25 \<le> width (canvas s)" and "25 \<le> height (canvas s)"
  shows "\<not> min (real (width (canvas s))) (real (height (canvas s))) / 2.5 - 10 < 0"
proof -
  have "real 25 \<le> real (width (canvas s))" and "real 25 \<le> real (height (canvas s))"
    using assms by (simp_all only: of_nat_le_iff)
  then have "25 \<le> min (real (width (canvas s))) (real (height (canvas s)))"
    by (simp only: min_def of_nat_numeral split: if_split) auto
  then have "0 \<le> min (real (width (canvas s))) (real (height (canvas s))) / 2.5 - 10"
    by simp
  then show ?thesis
    by linarith
qed

lemma draw_ok:
  assumes "ctx s = Context2D" and "25 \<le> width (canvas s)" and "25 \<le> height (canvas s)"
  shows "fst (draw r s) = None"
  using assms(1) radius_ok [OF assms(2,3)] by (simp add: draw_def Let_def)

text \<open>
  On a smaller canvas the first \<^verbatim>\<open>arc\<close> throws: the region has been cleared and
  the style of the ring set, and nothing is stroked.
\<close>

lemma draw_small_canvas_throws:
  assumes "\<not> hidden s" and "ctx s = Context2D"
      and "width (canvas s) < 25 \<or> height (canvas s) < 25"
  shows "draw r s =
    (Some IndexSizeError, s\<lparr>ctx_calls := ctx_calls s @
       [ClearRect 0 0 (real (width (canvas s))) (real (height (canvas s))),
        BeginPath, StrokeStyle ''#E5E7EB'', LineWidth 10]\<rparr>)"
proof -
  have "real (width (canvas s)) < 25 \<or> real (height (canvas s)) < 25"
    using assms(3) by auto
  then have "min (real (width (canvas s))) (real (height (canvas s))) < 25"
    by auto
  then have "min (real (width (canvas s))) (real (height (canvas s))) / 2.5 - 10 < 0"
    by simp
  then show ?thesis
    using assms(1,2) by (simp add: draw_def Let_def)
qed

text \<open>
  C8. A call of \<^verbatim>\<open>draw\<close> while \<^verbatim>\<open>hidden\<close> is true returns normally and
  leaves everything as it was: no call reaches the context (not even
  \<^verbatim>\<open>clearRect\<close>), and no field of the widget changes. This holds for every
  rotation argument and also when the context reference is \<^verbatim>\<open>null\<close>.
\<close>

theorem draw_hidden_noop: "hidden s \<Longrightarrow> draw r s = (None, s)"
  by (simp add: draw_def)

theorem draw_hidden_noop_witness:
  "hidden (setHidden True fresh)
   \<and> draw 1 (setHidden True fresh) = (None, setHidden True fresh)"
proof -
  have h: "hidden (setHidden True fresh)"
    by (simp add: setHidden_def)
  show ?thesis
    using h draw_hidden_noop [OF h, of 1] by simp
qed


text \<open>
  At value 0 the arc ends where it starts; at value 100 it ends \<open>2\<pi>\<close> later.
\<close>

lemma draw_arc_value_0:
  assumes "\<not> hidden s" and "ctx s = Context2D"
      and "25 \<le> width (canvas s)" and "25 \<le> height (canvas s)"
      and "value_field s = 0"
  shows "last (butlast (ctx_calls (snd (draw r s)))) =
           Arc (real (width (canvas s)) / 2) (real (height (canvas s)) / 2)
               (min (real (width (canvas s))) (real (height (canvas s))) / 2.5 - 10)
               (- pi / 2 + r) (- pi / 2 + r)"
  using assms(1,2,5) radius_ok [OF assms(3,4)]
  by (simp add: draw_def Let_def butlast_append)

lemma draw_arc_value_100:
  assumes "\<not> hidden s" and "ctx s = Context2D"
      and "25 \<le> width (canvas s)" and "25 \<le> height (canvas s)"
      and "value_field s = 100"
  shows "last (butlast (ctx_calls (snd (draw r s)))) =
           Arc (real (width (canvas s)) / 2) (real (height (canvas s)) / 2)
               (min (real (width (canvas s))) (real (height (canvas s))) / 2.5 - 10)
               (- pi / 2 + r) (- pi / 2 + r + 2 * pi)"
  using assms(1,2,5) radius_ok [OF assms(3,4)]
  by (simp add: draw_def Let_def butlast_append)


section \<open>Setters\<close>

text \<open>
  C1. For every number \<open>v\<close>, \<^verbatim>\<open>setValue(v)\<close> stores
  \<open>min(100, max(0, v))\<close> in the value field, which is 0 for \<open>v\<close> below 0, 100 for
  \<open>v\<close> above 100 and \<open>v\<close> itself otherwise, and then makes one call of
  \<^verbatim>\<open>draw\<close> with rotation 0: the outcome of \<^verbatim>\<open>setValue\<close> is the outcome
  of that call on the widget with the value stored.
\<close>

theorem setValue_stores_clamped_value:
  "value_field (snd (setValue v s)) = min 100 (max 0 v)
   \<and> value_field (snd (setValue v s)) = (if v < 0 then 0 else if 100 < v then 100 else v)
   \<and> setValue v s = draw 0 (s\<lparr>value_field := min 100 (max 0 v)\<rparr>)"
  by (simp add: setValue_def draw_frame)

text \<open>
  A number from 0 to 200 assigned to a dimension of the canvas is stored without its
  fraction.
\<close>

lemma set_dimension_floor:
  assumes "0 \<le> x" and "x \<le> 200"
  shows "set_dimension d x = nat \<lfloor>x\<rfloor>"
proof -
  have lo: "0 \<le> \<lfloor>x\<rfloor>"
    using assms(1) by simp
  have hi: "\<lfloor>x\<rfloor> \<le> 200"
    using assms(2) by (simp add: floor_le_iff)
  have "\<lfloor>x\<rfloor> mod 2 ^ 32 = \<lfloor>x\<rfloor>"
    using lo hi by (intro mod_pos_pos_trivial) simp_all
  moreover have "nat \<lfloor>x\<rfloor> \<le> 2147483647"
    using hi by linarith
  moreover have "\<not> x < 0"
    using assms(1) by simp
  ultimately show ?thesis
    by (simp only: set_dimension_def unsigned_long_def Let_def if_False if_True)
qed

text \<open>
  C9, as the source has it. At a viewport 123 pixels wide \<^verbatim>\<open>setCanvasSize\<close>
  assigns \<open>min(0.8 \<times> 123, 200) = 98.4\<close> to both dimensions; the canvas stores 98.
\<close>

theorem canvas_size_truncated_counterexample:
  "width (canvas (snd (setCanvasSize (fresh\<lparr>innerWidth := 123\<rparr>)))) = 98
   \<and> height (canvas (snd (setCanvasSize (fresh\<lparr>innerWidth := 123\<rparr>)))) = 98
   \<and> min (0.8 * real (123::nat)) 200 = 492 / 5
   \<and> real (98::nat) \<noteq> min (0.8 * real (123::nat)) 200"
  by (simp add: setCanvasSize_def draw_frame set_dimension_def unsigned_long_def Let_def)

text \<open>
  C9, amended. For every viewport width \<open>w\<close>, \<^verbatim>\<open>setCanvasSize\<close> assigns
  \<open>min(0.8 \<times> w, 200)\<close> to the width and to the height of the canvas, which stores the
  integer part: both dimensions become \<open>\<lfloor>min(0.8 \<times> w, 200)\<rfloor>\<close>. It then makes one
  call of \<^verbatim>\<open>draw\<close> with rotation 0.
\<close>

theorem setCanvasSize_square:
  "width (canvas (snd (setCanvasSize (s\<lparr>innerWidth := w\<rparr>))))
     = nat \<lfloor>min (0.8 * real w) 200\<rfloor>
   \<and> height (canvas (snd (setCanvasSize (s\<lparr>innerWidth := w\<rparr>))))
     = nat \<lfloor>min (0.8 * real w) 200\<rfloor>
   \<and> setCanvasSize (s\<lparr>innerWidth := w\<rparr>) =
       draw 0 (s\<lparr>innerWidth := w,
                  canvas := (canvas s)\<lparr>width := nat \<lfloor>min (0.8 * real w) 200\<rfloor>,
                                       height := nat \<lfloor>min (0.8 * real w) 200\<rfloor>\<rparr>\<rparr>)"
proof -
  have "0 \<le> min (real w * 0.8) 200" and "min (real w * 0.8) 200 \<le> 200"
    by simp_all
  then have "set_dimension 300 (min (real w * 0.8) 200) = nat \<lfloor>min (real w * 0.8) 200\<rfloor>"
    and "set_dimension 150 (min (real w * 0.8) 200) = nat \<lfloor>min (real w * 0.8) 200\<rfloor>"
    by (simp_all only: set_dimension_floor)
  then show ?thesis
    by (simp add: setCanvasSize_def draw_frame Let_def mult.commute)
qed

text \<open>
  C10. \<^verbatim>\<open>setHidden(f)\<close> sets the hidden field to \<open>f\<close> and the canvas's
  \<^verbatim>\<open>style.visibility\<close> to \<^verbatim>\<open>'hidden'\<close> or \<^verbatim>\<open>'visible'\<close>, and changes
  nothing else: it calls nothing on the context, so what has been drawn stays, and the
  value, the rotation, the animate flag, the frame handle and the queued frames are as
  before. A value set while hidden is therefore not drawn when the widget is shown
  again: after hide, \<^verbatim>\<open>setValue\<close>, show, the context has received no call.
\<close>

theorem setHidden_changes_only_visibility:
  "setHidden f s =
     s\<lparr>hidden := f,
       canvas := (canvas s)\<lparr>style_visibility := (if f then ''hidden'' else ''visible'')\<rparr>\<rparr>
   \<and> hidden (setHidden f s) = f
   \<and> style_visibility (canvas (setHidden f s)) = (if f then ''hidden'' else ''visible'')
   \<and> parentNode (canvas (setHidden f s)) = parentNode (canvas s)
   \<and> width (canvas (setHidden f s)) = width (canvas s)
   \<and> height (canvas (setHidden f s)) = height (canvas s)
   \<and> value_field (setHidden f s) = value_field s
   \<and> rotation (setHidden f s) = rotation s
   \<and> animate (setHidden f s) = animate s
   \<and> animationFrame (setHidden f s) = animationFrame s
   \<and> ctx (setHidden f s) = ctx s
   \<and> ctx_calls (setHidden f s) = ctx_calls s
   \<and> raf_pending (setHidden f s) = raf_pending s
   \<and> ctx_calls (run [SetHidden True, SetValue v, SetHidden False] s) = ctx_calls s"
  by (simp add: setHidden_def setValue_def draw_def)

section \<open>Animation\<close>

text \<open>A tick stores the rounded sum, also when its render throws.\<close>

lemma rotation_animate_tick:
  "rotation (snd (animate_tick s)) = to_double (rotation s + to_double 0.02)"
proof -
  let ?s1 = "s\<lparr>rotation := to_double (rotation s + to_double 0.02)\<rparr>"
  obtain e s2 where d: "draw (rotation ?s1) ?s1 = (e, s2)"
    by (cases "draw (rotation ?s1) ?s1")
  then have "rotation s2 = to_double (rotation s + to_double 0.02)"
    using draw_frame(6) [of "rotation ?s1" ?s1] by simp
  then show ?thesis
    using d by (cases e) (simp_all add: animate_tick_def requestAnimationFrame_def Let_def)
qed

lemma rotation_frame:
  assumes "h \<in> set (raf_pending s)"
  shows "rotation (snd (step (Frame h) s)) = to_double (rotation s + to_double 0.02)"
  using assms
    rotation_animate_tick [of "s\<lparr>raf_pending := removeAll h (raf_pending s)\<rparr>"]
  by simp

lemma spinning_fields:
  "ctx spinning = Context2D"
  "hidden spinning = False"
  "width (canvas spinning) = 200"
  "height (canvas spinning) = 200"
  "animationFrame spinning = Some 1"
  "raf_pending spinning = [1]"
  "raf_next spinning = 2"
  by (simp_all add: spinning_def fresh_def setAnimate_def startAnimation_def
      animate_tick_def requestAnimationFrame_def draw_def Let_def)

lemma rotation_spinning: "rotation spinning = 5764607523034235 / 2 ^ 58"
proof -
  have "rotation spinning = to_double (rotation (fresh\<lparr>animate := True\<rparr>) + to_double 0.02)"
    unfolding spinning_def setAnimate_def startAnimation_def Let_def
    by (simp only: if_True rotation_animate_tick)
  moreover have "rotation (fresh\<lparr>animate := True\<rparr>) = 0"
    by (simp add: fresh_def)
  ultimately show ?thesis
    by (simp only: tick_1)
qed

text \<open>
  C6, as the source has it. The sum is rounded. A widget constructed with the option
  \<^verbatim>\<open>rotation: 1e16\<close> keeps the rotation \<open>10 ^ 16\<close> through
  \<^verbatim>\<open>setAnimate(true)\<close> and through the frame that follows: the step is absorbed.
  On the fresh widget the third tick takes the rotation from \<open>2 c\<close> to a number below
  \<open>3 c\<close>, where \<open>c\<close> is the double 0.02: it adds less than the step.
\<close>

theorem tick_step_not_exact_counterexample:
  "constructor page (no_options\<lparr>opt_rotation := Some (10 ^ 16)\<rparr>)
     = Inr (fresh\<lparr>rotation := 10 ^ 16\<rparr>)
   \<and> rotation (run [SetAnimate True] (fresh\<lparr>rotation := 10 ^ 16\<rparr>)) = 10 ^ 16
   \<and> rotation (run [SetAnimate True, Frame 1] (fresh\<lparr>rotation := 10 ^ 16\<rparr>)) = 10 ^ 16
   \<and> to_double 0.02 = 5764607523034235 / 2 ^ 58
   \<and> rotation (run [SetAnimate True, Frame 1] fresh) = 5764607523034235 / 2 ^ 57
   \<and> rotation (run [SetAnimate True, Frame 1, Frame 2] fresh) = 8646911284551352 / 2 ^ 57
   \<and> rotation (run [SetAnimate True, Frame 1, Frame 2] fresh)
       - rotation (run [SetAnimate True, Frame 1] fresh) < to_double 0.02"
proof -
  let ?big = "fresh\<lparr>rotation := 10 ^ 16\<rparr>"
  have c: "constructor page (no_options\<lparr>opt_rotation := Some (10 ^ 16)\<rparr>) = Inr ?big"
    by (simp add: constructor_def page_def no_options_def fresh_def setCanvasSize_def
        draw_def set_dimension_def unsigned_long_def override_def Let_def)
  have b0: "rotation (?big\<lparr>animate := True\<rparr>) = 10 ^ 16"
    by simp
  have "rotation (snd (setAnimate True ?big))
      = to_double (rotation (?big\<lparr>animate := True\<rparr>) + to_double 0.02)"
    unfolding setAnimate_def startAnimation_def Let_def
    by (simp only: if_True rotation_animate_tick)
  then have b1: "rotation (snd (setAnimate True ?big)) = 10 ^ 16"
    by (simp only: b0 tick_absorbed)
  have bp: "1 \<in> set (raf_pending (snd (setAnimate True ?big)))"
    by (simp add: fresh_def setAnimate_def startAnimation_def animate_tick_def
        requestAnimationFrame_def draw_def Let_def)
  have b2: "rotation (snd (step (Frame 1) (snd (setAnimate True ?big)))) = 10 ^ 16"
    by (simp only: rotation_frame [OF bp] b1 tick_absorbed)
  have p1: "1 \<in> set (raf_pending spinning)"
    by (simp add: spinning_fields)
  have t2: "rotation (snd (step (Frame 1) spinning)) = 5764607523034235 / 2 ^ 57"
    by (simp only: rotation_frame [OF p1] rotation_spinning tick_2)
  have p2: "2 \<in> set (raf_pending (snd (step (Frame 1) spinning)))"
    by (simp add: spinning_fields animate_tick_def requestAnimationFrame_def draw_def
        Let_def)
  have t3: "rotation (snd (step (Frame 2) (snd (step (Frame 1) spinning))))
      = 8646911284551352 / 2 ^ 57"
    by (simp only: rotation_frame [OF p2] t2 tick_3)
  have r1: "run [SetAnimate True] ?big = snd (setAnimate True ?big)"
    and r2: "run [SetAnimate True, Frame 1] ?big
      = snd (step (Frame 1) (snd (setAnimate True ?big)))"
    and r3: "run [SetAnimate True, Frame 1] fresh = snd (step (Frame 1) spinning)"
    and r4: "run [SetAnimate True, Frame 1, Frame 2] fresh
      = snd (step (Frame 2) (snd (step (Frame 1) spinning)))"
    by (simp_all add: spinning_def del: step.simps(7))
  have less: "(8646911284551352 / 2 ^ 57 - 5764607523034235 / 2 ^ 57 :: real)
      < 5764607523034235 / 2 ^ 58"
    by simp
  show ?thesis
    unfolding r1 r2 r3 r4 b1 b2 t2 t3 double_0_02
    using c less by (simp only: simp_thms)
qed

text \<open>
  C6, amended. On a widget that holds its context and whose canvas is at least 25 by 25
  pixels, the tick that the browser runs for a queued frame replaces the rotation by
  the double nearest to the rotation plus 0.02 (the literal being a double itself). While
  that sum is below \<open>2 ^ 47\<close> in magnitude, the new rotation is within \<open>1 / 128\<close>
  of the sum and strictly larger than the old rotation. The tick calls \<^verbatim>\<open>draw\<close>
  once, with the new rotation, and then requests the next frame and stores its handle.
  The same tick is run at once by \<^verbatim>\<open>setAnimate(true)\<close>.
\<close>

theorem frame_tick_advances:
  assumes "ctx s = Context2D" and "h \<in> set (raf_pending s)"
      and "25 \<le> width (canvas s)" and "25 \<le> height (canvas s)"
      and "\<bar>rotation s + to_double 0.02\<bar> < 2 ^ 47"
  shows "step (Frame h) s =
           (None,
            (snd (draw (to_double (rotation s + to_double 0.02))
                    (s\<lparr>raf_pending := removeAll h (raf_pending s),
                       rotation := to_double (rotation s + to_double 0.02)\<rparr>)))
              \<lparr>raf_pending := removeAll h (raf_pending s) @ [raf_next s],
               raf_next := raf_next s + 1,
               animationFrame := Some (raf_next s)\<rparr>)
         \<and> rotation (snd (step (Frame h) s)) = to_double (rotation s + to_double 0.02)
         \<and> \<bar>rotation (snd (step (Frame h) s)) - (rotation s + to_double 0.02)\<bar> \<le> 1 / 128
         \<and> rotation s < rotation (snd (step (Frame h) s))
         \<and> raf_pending (snd (step (Frame h) s)) = removeAll h (raf_pending s) @ [raf_next s]
         \<and> animationFrame (snd (step (Frame h) s)) = Some (raf_next s)
         \<and> fst (setAnimate True s) = None
         \<and> rotation (snd (setAnimate True s)) = to_double (rotation s + to_double 0.02)
         \<and> raf_pending (snd (setAnimate True s)) = raf_pending s @ [raf_next s]"
proof -
  let ?r = "to_double (rotation s + to_double 0.02)"
  let ?s1 = "s\<lparr>raf_pending := removeAll h (raf_pending s), rotation := ?r\<rparr>"
  let ?t1 = "s\<lparr>animate := True, rotation := ?r\<rparr>"
  have near: "\<bar>?r - (rotation s + to_double 0.02)\<bar> \<le> 1 / 128"
    using assms(5) by (rule to_double_step_close)
  have up: "rotation s < ?r"
    using assms(5) by (rule to_double_step_increases)
  have "fst (draw ?r ?s1) = None"
    using assms(1,3,4) by (intro draw_ok) simp_all
  then obtain s2 where s2: "draw ?r ?s1 = (None, s2)"
    by (cases "draw ?r ?s1") simp
  have f: "raf_pending s2 = removeAll h (raf_pending s)" "raf_next s2 = raf_next s"
      "rotation s2 = ?r"
    using draw_frame [of ?r ?s1] s2 by simp_all
  have tick: "step (Frame h) s =
      (None, s2\<lparr>raf_pending := removeAll h (raf_pending s) @ [raf_next s],
                raf_next := raf_next s + 1, animationFrame := Some (raf_next s)\<rparr>)"
    using assms(2) s2 f by (simp add: animate_tick_def requestAnimationFrame_def Let_def)
  have "fst (draw ?r ?t1) = None"
    using assms(1,3,4) by (intro draw_ok) simp_all
  then obtain t2 where t2: "draw ?r ?t1 = (None, t2)"
    by (cases "draw ?r ?t1") simp
  have g: "raf_pending t2 = raf_pending s" "raf_next t2 = raf_next s" "rotation t2 = ?r"
    using draw_frame [of ?r ?t1] t2 by simp_all
  have start: "setAnimate True s =
      (None, t2\<lparr>raf_pending := raf_pending s @ [raf_next s],
                raf_next := raf_next s + 1, animationFrame := Some (raf_next s)\<rparr>)"
    using t2 g
    by (simp add: setAnimate_def startAnimation_def animate_tick_def
        requestAnimationFrame_def Let_def)
  have "step (Frame h) s =
           (None,
            (snd (draw ?r ?s1))
              \<lparr>raf_pending := removeAll h (raf_pending s) @ [raf_next s],
               raf_next := raf_next s + 1,
               animationFrame := Some (raf_next s)\<rparr>)"
    using tick s2 by simp
  moreover have "rotation (snd (step (Frame h) s)) = ?r"
    using tick f by simp
  moreover have "raf_pending (snd (step (Frame h) s))
      = removeAll h (raf_pending s) @ [raf_next s]"
    and "animationFrame (snd (step (Frame h) s)) = Some (raf_next s)"
    using tick by simp_all
  moreover have "fst (setAnimate True s) = None"
    and "rotation (snd (setAnimate True s)) = ?r"
    and "raf_pending (snd (setAnimate True s)) = raf_pending s @ [raf_next s]"
    using start g by simp_all
  ultimately show ?thesis
    using near up by (simp only: simp_thms)
qed

theorem frame_tick_advances_witness:
  "ctx spinning = Context2D \<and> 1 \<in> set (raf_pending spinning)
   \<and> 25 \<le> width (canvas spinning) \<and> 25 \<le> height (canvas spinning)
   \<and> \<bar>rotation spinning + to_double 0.02\<bar> < 2 ^ 47
   \<and> rotation spinning = 5764607523034235 / 2 ^ 58
   \<and> rotation (snd (step (Frame 1) spinning)) = 5764607523034235 / 2 ^ 57
   \<and> rotation spinning < rotation (snd (step (Frame 1) spinning))
   \<and> raf_pending (snd (step (Frame 1) spinning)) = [2]
   \<and> animationFrame (snd (step (Frame 1) spinning)) = Some 2"
proof -
  have c: "ctx spinning = Context2D" and p: "1 \<in> set (raf_pending spinning)"
    and w: "25 \<le> width (canvas spinning)" and v: "25 \<le> height (canvas spinning)"
    by (simp_all add: spinning_fields)
  have b: "\<bar>rotation spinning + to_double 0.02\<bar> < 2 ^ 47"
    unfolding rotation_spinning double_0_02 by simp
  have "rotation (snd (step (Frame 1) spinning)) = to_double (rotation spinning + to_double 0.02)
      \<and> rotation spinning < rotation (snd (step (Frame 1) spinning))
      \<and> raf_pending (snd (step (Frame 1) spinning)) =
          removeAll 1 (raf_pending spinning) @ [raf_next spinning]
      \<and> animationFrame (snd (step (Frame 1) spinning)) = Some (raf_next spinning)"
    using frame_tick_advances [OF c p w v b] by blast
  then have "rotation (snd (step (Frame 1) spinning)) = 5764607523034235 / 2 ^ 57
      \<and> rotation spinning < rotation (snd (step (Frame 1) spinning))
      \<and> raf_pending (snd (step (Frame 1) spinning)) = [2]
      \<and> animationFrame (snd (step (Frame 1) spinning)) = Some 2"
    unfolding rotation_spinning tick_2 by (simp add: spinning_fields del: step.simps)
  then show ?thesis
    using c p w v b rotation_spinning by (simp del: step.simps)
qed

text \<open>
  The double 0.02 is left as it is when it is rounded again (0.02 is written
  \<open>1 / 50\<close> here, the form in which the simplifier keeps it).
\<close>

lemma double_0_02_again: "to_double (to_double (1 / 50)) = to_double (1 / 50)"
proof -
  have e: "(1 / 50 :: real) = 0.02"
    by simp
  have "to_double (to_double 0.02) = to_double 0.02"
    using tick_1 double_0_02 by simp
  then show ?thesis
    unfolding e .
qed

lemma double_0_02_positive: "0 < to_double 0.02"
  using double_0_02_bounds(1) by simp

text \<open>
  C4. A second \<^verbatim>\<open>setAnimate(true)\<close> on the spinning widget requests a second
  frame without cancelling the first: the frames of handles 1 and 2 are both queued, and
  only handle 2 is stored. \<^verbatim>\<open>setAnimate(false)\<close> then cancels handle 2 alone; the
  frame of handle 1 stays queued, and when it runs the rotation leaves 0 again, for the
  double 0.02, and the next frame is requested.
\<close>

theorem second_start_leaves_two_frames:
  "raf_pending (run [SetAnimate True] fresh) = [1]
   \<and> raf_pending (run [SetAnimate True, SetAnimate True] fresh) = [1, 2]
   \<and> animationFrame (run [SetAnimate True, SetAnimate True] fresh) = Some 2
   \<and> raf_pending (run [SetAnimate True, SetAnimate True, SetAnimate False] fresh) = [1]
   \<and> rotation (run [SetAnimate True, SetAnimate True, SetAnimate False] fresh) = 0
   \<and> rotation (run [SetAnimate True, SetAnimate True, SetAnimate False, Frame 1] fresh)
       = to_double 0.02
   \<and> 0 < rotation (run [SetAnimate True, SetAnimate True, SetAnimate False, Frame 1] fresh)
   \<and> raf_pending (run [SetAnimate True, SetAnimate True, SetAnimate False, Frame 1] fresh)
       = [3]"
  using double_0_02_positive
  by (simp add: fresh_def setAnimate_def startAnimation_def stopAnimation_def
      animate_tick_def requestAnimationFrame_def cancelAnimationFrame_def draw_def Let_def
      double_0_02_again)

text \<open>
  C5. After two calls of \<^verbatim>\<open>setAnimate(true)\<close>, neither
  \<^verbatim>\<open>setAnimate(false)\<close> nor \<^verbatim>\<open>destroy()\<close> cancels the frame of handle 1:
  it is still queued afterwards. After \<^verbatim>\<open>setAnimate(false)\<close> that frame runs
  normally, takes the rotation from 0 to the double 0.02, strokes the arc from the
  rotated start angle, and requests the frame of handle 3: the render made by the stop
  was not the last one, and the rotation does not stay 0.
\<close>

theorem stop_after_second_start_keeps_frame:
  "raf_pending (run [SetAnimate True, SetAnimate True, SetAnimate False] fresh) = [1]
   \<and> raf_pending (run [SetAnimate True, SetAnimate True, Destroy] fresh) = [1]
   \<and> fst (step (Frame 1) (run [SetAnimate True, SetAnimate True, SetAnimate False] fresh))
       = None
   \<and> rotation (run [SetAnimate True, SetAnimate True, SetAnimate False, Frame 1] fresh)
       \<noteq> 0
   \<and> last (butlast (ctx_calls
        (run [SetAnimate True, SetAnimate True, SetAnimate False, Frame 1] fresh)))
       = Arc 100 100 70 (- pi / 2 + to_double 0.02) (- pi / 2 + to_double 0.02)
   \<and> raf_pending (run [SetAnimate True, SetAnimate True, SetAnimate False, Frame 1] fresh)
       = [3]"
  using double_0_02_positive
  by (simp add: fresh_def setAnimate_def startAnimation_def stopAnimation_def destroy_def
      animate_tick_def requestAnimationFrame_def cancelAnimationFrame_def draw_def Let_def
      double_0_02_again)

section \<open>Teardown\<close>

lemma ctx_stopAnimation: "ctx (snd (stopAnimation s)) = ctx s"
  by (simp add: stopAnimation_def cancelAnimationFrame_def draw_frame Let_def
      split: option.split)

text \<open>Without a context, a render of a visible widget throws a TypeError.\<close>

lemma draw_without_ctx:
  "ctx s = Null \<Longrightarrow> draw r s = ((if hidden s then None else Some TypeError), s)"
  by (simp add: draw_def Let_def)

lemma stopAnimation_without_ctx:
  "ctx s = Null \<Longrightarrow> fst (stopAnimation s) = (if hidden s then None else Some TypeError)"
  by (simp add: stopAnimation_def cancelAnimationFrame_def draw_without_ctx Let_def
      split: option.split)

text \<open>
  \<^verbatim>\<open>destroy\<close> on a widget whose context reference is \<^verbatim>\<open>null\<close> throws: in
  \<^verbatim>\<open>draw\<close> when the widget is visible, at its own \<^verbatim>\<open>clearRect\<close> otherwise.
\<close>

lemma destroy_without_ctx_raises:
  assumes "ctx s = Null"
  shows "fst (destroy s) = Some TypeError"
proof (cases "stopAnimation s")
  case (Pair e s1)
  have c: "ctx s1 = Null"
    using ctx_stopAnimation [of s] Pair assms by simp
  have e: "e = None \<or> e = Some TypeError"
    using stopAnimation_without_ctx [OF assms] Pair by (simp split: if_splits)
  then show ?thesis
  proof
    assume "e = None"
    with Pair c show ?thesis by (simp add: destroy_def Let_def)
  next
    assume "e = Some TypeError"
    with Pair show ?thesis by (simp add: destroy_def)
  qed
qed

lemma destroy_releases_ctx:
  assumes "fst (destroy s) = None"
  shows "ctx (snd (destroy s)) = Null"
proof (cases "stopAnimation s")
  case (Pair e s1)
  with assms show ?thesis
    by (cases e; cases "ctx s1") (simp_all add: destroy_def Let_def)
qed

lemma second_destroy_always_raises:
  "fst (destroy s) = None \<Longrightarrow> fst (destroy (snd (destroy s))) = Some TypeError"
  by (simp add: destroy_releases_ctx destroy_without_ctx_raises)

text \<open>
  C3. On the example page the first \<^verbatim>\<open>destroy()\<close> returns normally and the second
  one throws a TypeError, whether the widget is visible or hidden. The second call
  leaves the state as the first one left it.
\<close>

theorem second_destroy_raises:
  "fst (destroy fresh) = None
   \<and> fst (destroy (snd (destroy fresh))) = Some TypeError
   \<and> snd (destroy (snd (destroy fresh))) = snd (destroy fresh)
   \<and> fst (destroy (setHidden True fresh)) = None
   \<and> fst (destroy (snd (destroy (setHidden True fresh)))) = Some TypeError"
  by (simp add: fresh_def destroy_def stopAnimation_def draw_def setHidden_def Let_def)

section \<open>The range of the value\<close>

lemma value_field_animate_tick: "value_field (snd (animate_tick s)) = value_field s"
proof -
  let ?s1 = "s\<lparr>rotation := to_double (rotation s + to_double 0.02)\<rparr>"
  obtain e s2 where d: "draw (rotation ?s1) ?s1 = (e, s2)"
    by (cases "draw (rotation ?s1) ?s1")
  then have "value_field s2 = value_field s"
    using draw_frame(3) [of "rotation ?s1" ?s1] by simp
  then show ?thesis
    using d by (cases e) (simp_all add: animate_tick_def requestAnimationFrame_def Let_def)
qed

lemma value_field_stopAnimation: "value_field (snd (stopAnimation s)) = value_field s"
  by (simp add: stopAnimation_def cancelAnimationFrame_def draw_frame Let_def
      split: option.split)

lemma value_field_setCanvasSize: "value_field (snd (setCanvasSize s)) = value_field s"
  by (simp add: setCanvasSize_def draw_frame Let_def)

lemma value_field_destroy: "value_field (snd (destroy s)) = value_field s"
proof (cases "stopAnimation s")
  case (Pair e s1)
  with value_field_stopAnimation [of s] have "value_field s1 = value_field s"
    by simp
  with Pair show ?thesis
    by (cases e; cases "ctx s1") (simp_all add: destroy_def Let_def)
qed

lemma value_field_setValue: "value_field (snd (setValue v s)) = min 100 (max 0 v)"
  by (simp add: setValue_def draw_frame)

lemma value_field_incrementProgress:
  "value_field (snd (incrementProgress v s)) =
     (if value_field s < 100 then min 100 (max 0 v) else value_field s)"
proof (cases "setValue v (s\<lparr>value_field := v\<rparr>)")
  case (Pair e s1)
  with value_field_setValue [of v "s\<lparr>value_field := v\<rparr>"]
  have "value_field s1 = min 100 (max 0 v)" by simp
  with Pair show ?thesis
    by (cases e; cases "doc_input s1") (simp_all add: incrementProgress_def)
qed

text \<open>Every call and every event keeps the value between 0 and 100.\<close>

lemma step_value_in_range:
  assumes "value_in_range s"
  shows "value_in_range (snd (step c s))"
proof (cases c)
  case (SetValue v)
  then show ?thesis by (simp add: value_in_range_def value_field_setValue)
next
  case (SetAnimate a)
  with assms show ?thesis
    by (simp add: value_in_range_def setAnimate_def startAnimation_def
        value_field_animate_tick value_field_stopAnimation Let_def)
next
  case (SetHidden h)
  with assms show ?thesis by (simp add: value_in_range_def setHidden_def)
next
  case (IncrementProgress v)
  with assms show ?thesis
    by (simp add: value_in_range_def value_field_incrementProgress)
next
  case Destroy
  with assms show ?thesis by (simp add: value_in_range_def value_field_destroy)
next
  case (Resize w)
  with assms show ?thesis
    by (simp add: value_in_range_def value_field_setCanvasSize Let_def)
next
  case (Frame h)
  with assms show ?thesis
    by (simp add: value_in_range_def value_field_animate_tick)
qed

lemma run_value_in_range: "value_in_range s \<Longrightarrow> value_in_range (run cs s)"
  by (induction cs arbitrary: s) (simp_all add: step_value_in_range)

lemma run_append: "run (cs @ ds) s = run ds (run cs s)"
  by (induction cs arbitrary: s) simp_all

text \<open>The constructor stores the value option as it is given.\<close>

lemma constructor_value:
  assumes "constructor b opts = Inr s0"
  shows "value_field s0 = override 0 (opt_value opts)"
proof (cases "b_element b")
  case None
  with assms show ?thesis by (simp add: constructor_def)
next
  case (Some p)
  obtain el el_ctx where p: "p = (el, el_ctx)" by (cases p)
  let ?s0 = "\<lparr>canvas = override el (opt_canvas opts),
              ctx = Context2D,
              value_field = override 0 (opt_value opts),
              animate = override False (opt_animate opts),
              hidden = override False (opt_hidden opts),
              rotation = override 0 (opt_rotation opts),
              animationFrame = override None (opt_animationFrame opts),
              ctx_calls = override el_ctx (opt_ctx opts),
              this_canvas_null = False,
              resize_listener = False,
              innerWidth = b_innerWidth b,
              raf_pending = [],
              raf_next = b_raf_next b,
              doc_input = b_input b\<rparr>"
  obtain e s1 where r: "setCanvasSize ?s0 = (e, s1)"
    by (cases "setCanvasSize ?s0")
  have "value_field s1 = override 0 (opt_value opts)"
    using value_field_setCanvasSize [of ?s0] r by simp
  with assms Some p r show ?thesis
    by (cases e) (auto simp: constructor_def Let_def)
qed

text \<open>
  C2, as the source has it. The value need not be an integer: \<^verbatim>\<open>setValue(50.5)\<close>
  on the fresh widget stores 50.5. The constructor does not clamp either: the option
  \<^verbatim>\<open>value: 500\<close> is stored as 500.
\<close>

theorem value_not_integer_counterexample:
  "constructor page no_options = Inr fresh
   \<and> value_field (run [SetValue (101 / 2)] fresh) = 101 / 2
   \<and> (101 / 2 :: real) \<notin> \<int>
   \<and> map_sum id value_field (constructor page (no_options\<lparr>opt_value := Some 500\<rparr>))
       = Inr 500"
  by (simp add: constructor_page setValue_def draw_def Let_def fresh_def constructor_def
      page_def setCanvasSize_def set_dimension_def unsigned_long_def override_def
      no_options_def)

text \<open>
  C2, amended. When the widget is constructed without a value option, or with one
  between 0 and 100, then after any sequence of calls and events, with any arguments,
  the value is a number between 0 and 100; and a \<^verbatim>\<open>setValue(v)\<close> after such a
  sequence stores \<open>min(100, max(0, v))\<close>, whatever \<open>v\<close> is.
\<close>

theorem value_stays_in_range:
  assumes "constructor b opts = Inr s0"
      and "0 \<le> override 0 (opt_value opts) \<and> override 0 (opt_value opts) \<le> 100"
    shows "0 \<le> value_field (run cs s0) \<and> value_field (run cs s0) \<le> 100
           \<and> value_field (run (cs @ [SetValue v]) s0) = min 100 (max 0 v)"
proof -
  from assms have "value_in_range s0"
    by (simp add: value_in_range_def constructor_value)
  then have "value_in_range (run cs s0)"
    by (rule run_value_in_range)
  then show ?thesis
    by (simp add: value_in_range_def run_append value_field_setValue)
qed

theorem value_stays_in_range_witness:
  "constructor page no_options = Inr fresh
   \<and> 0 \<le> override (0::real) (opt_value no_options)
   \<and> override (0::real) (opt_value no_options) \<le> 100
   \<and> 0 \<le> value_field
            (run [SetValue 150, SetAnimate True, Frame 1, SetValue (101 / 2)] fresh)
   \<and> value_field
        (run [SetValue 150, SetAnimate True, Frame 1, SetValue (101 / 2)] fresh) \<le> 100
   \<and> value_field
        (run ([SetValue 150, SetAnimate True, Frame 1, SetValue (101 / 2)]
              @ [SetValue (- 5)]) fresh) = 0"
proof -
  have r: "0 \<le> override (0::real) (opt_value no_options)
      \<and> override (0::real) (opt_value no_options) \<le> 100"
    by (simp add: override_def no_options_def)
  show ?thesis
    using value_stays_in_range [OF constructor_page r,
        of "[SetValue 150, SetAnimate True, Frame 1, SetValue (101 / 2)]" "- 5"]
      constructor_page r
    by simp
qed

end
